theory Spec2Isabelle
  imports Complex_Main
begin

section \<open>The MobileFormSettings node of ComfyUI-Forms\<close>

text \<open>
  The module \<^verbatim>\<open>__init__.py\<close> declares one node class, \<^verbatim>\<open>MobileFormSettings\<close>, and two
  module-level dictionaries that register it. The class has three callables
  (\<^verbatim>\<open>INPUT_TYPES\<close>, \<^verbatim>\<open>store\<close>, \<^verbatim>\<open>IS_CHANGED\<close>) and four plain attributes.
  Everything below is a direct transcription of that module.
\<close>

subsection \<open>Python values\<close>

text \<open>
  A Python float is an IEEE 754 binary64. Every finite binary64 is a rational number;
  the two zeros are one value here (they compare equal), and all NaN payloads are one
  value \<open>NaN\<close> (Python code cannot tell them apart by comparison).
\<close>

datatype py_float = Finite rat | PosInf | NegInf | NaN

text \<open>
  The values the module builds: strings, booleans, floats, tuples and dictionaries with
  string keys. A dictionary is an association list in insertion order, as Python keeps
  it; \<open>map_of\<close> is the lookup (no literal of the module repeats a key).
\<close>

datatype py_value =
    PStr string
  | PBool bool
  | PFloat py_float
  | PTuple "py_value list"
  | PDict "(string \<times> py_value) list"

datatype py_error = TypeError | KeyError | IndexError

type_synonym 'a result = "py_error + 'a"

text \<open>\<^verbatim>\<open>float.__eq__\<close> and \<^verbatim>\<open>float.__ne__\<close>: IEEE 754 comparison, where a NaN is
  unordered with every operand, itself included.\<close>

fun float_eq :: "py_float \<Rightarrow> py_float \<Rightarrow> bool" where
  "float_eq NaN y = False"
| "float_eq x NaN = False"
| "float_eq (Finite a) (Finite b) = (a = b)"
| "float_eq PosInf PosInf = True"
| "float_eq NegInf NegInf = True"
| "float_eq x y = False"

definition float_ne :: "py_float \<Rightarrow> py_float \<Rightarrow> bool" where
  "float_ne x y = (\<not> float_eq x y)"

text \<open>Subscription \<^verbatim>\<open>d[k]\<close>, \<^verbatim>\<open>list(d.keys())\<close> and \<^verbatim>\<open>len(v)\<close>.\<close>

definition dict_get :: "py_value \<Rightarrow> string \<Rightarrow> py_value result" where
  "dict_get d k =
     (case d of
        PDict kvs \<Rightarrow> (case map_of kvs k of Some v \<Rightarrow> Inr v | None \<Rightarrow> Inl KeyError)
      | _ \<Rightarrow> Inl TypeError)"

definition dict_keys :: "py_value \<Rightarrow> string list result" where
  "dict_keys d = (case d of PDict kvs \<Rightarrow> Inr (map fst kvs) | _ \<Rightarrow> Inl TypeError)"

definition py_len :: "py_value \<Rightarrow> nat result" where
  "py_len v =
     (case v of
        PStr s \<Rightarrow> Inr (length s)
      | PTuple xs \<Rightarrow> Inr (length xs)
      | PDict kvs \<Rightarrow> Inr (length kvs)
      | _ \<Rightarrow> Inl TypeError)"

subsection \<open>Calling a function with a defaulted parameter\<close>

text \<open>
  A parameter list gives each parameter its default, if it has one. An argument is
  \<open>Some v\<close> when the caller passes it and \<open>None\<close> when the caller leaves it out; then
  the default is bound, and a parameter without one raises \<^verbatim>\<open>TypeError\<close>.
\<close>

type_synonym params = "(string \<times> py_value option) list"

definition bind_param :: "params \<Rightarrow> string \<Rightarrow> py_value option \<Rightarrow> py_value result" where
  "bind_param ps name arg =
     (case arg of
        Some v \<Rightarrow> Inr v
      | None \<Rightarrow> (case map_of ps name of Some (Some d) \<Rightarrow> Inr d | _ \<Rightarrow> Inl TypeError))"

subsection \<open>The class body\<close>

text \<open>
  \<^verbatim>\<open>
    @classmethod
    def INPUT_TYPES(cls):
        return {
            "required": {
                "settings_json": ("STRING", {
                    "default": "{}",
                    "multiline": True,
                    "dynamicPrompts": False
                })
            },
            "optional": {},
        }
  \<close>
\<close>

definition INPUT_TYPES :: py_value where
  "INPUT_TYPES =
     PDict
       [(''required'',
           PDict
             [(''settings_json'',
                 PTuple
                   [PStr ''STRING'',
                    PDict
                      [(''default'', PStr ''{}''),
                       (''multiline'', PBool True),
                       (''dynamicPrompts'', PBool False)]])]),
        (''optional'', PDict [])]"

text \<open>
  \<^verbatim>\<open>
    RETURN_TYPES = ()
    FUNCTION = "store"
    CATEGORY = "MobileForm"
    OUTPUT_NODE = True
  \<close>
\<close>

definition RETURN_TYPES :: py_value where
  "RETURN_TYPES = PTuple []"

definition FUNCTION :: py_value where
  "FUNCTION = PStr ''store''"

definition CATEGORY :: py_value where
  "CATEGORY = PStr ''MobileForm''"

definition OUTPUT_NODE :: py_value where
  "OUTPUT_NODE = PBool True"

text \<open>
  An instance of the class carries its attribute dictionary; the class defines no
  \<^verbatim>\<open>__init__\<close>, so a fresh instance has none. The record is extensible: whatever else
  a caller can observe sits in the extension and is threaded through unchanged or
  changed exactly as the method body says.
\<close>

record node_state =
  attrs :: "(string \<times> py_value) list"

text \<open>
  \<^verbatim>\<open>
    def store(self, settings_json="{}"):
        return {}
  \<close>
  The method binds its parameter and returns a new empty dictionary. It assigns to
  nothing, so the state it returns is the state it was given.
\<close>

definition store_params :: params where
  "store_params = [(''settings_json'', Some (PStr ''{}''))]"

definition store ::
  "'a node_state_scheme \<Rightarrow> py_value option \<Rightarrow> py_value result \<times> 'a node_state_scheme" where
  "store self arg =
     (case bind_param store_params ''settings_json'' arg of
        Inl e \<Rightarrow> (Inl e, self)
      | Inr settings_json \<Rightarrow> (Inr (PDict []), self))"

text \<open>
  \<^verbatim>\<open>
    @classmethod
    def IS_CHANGED(cls, settings_json="{}"):
        return float("nan")
  \<close>
  The literal \<^verbatim>\<open>"nan"\<close> is one of the spellings \<^verbatim>\<open>float\<close> accepts for a NaN, so the
  call yields a NaN and cannot raise.
\<close>

definition IS_CHANGED_params :: params where
  "IS_CHANGED_params = [(''settings_json'', Some (PStr ''{}''))]"

definition IS_CHANGED :: "py_value option \<Rightarrow> py_value result" where
  "IS_CHANGED arg =
     (case bind_param IS_CHANGED_params ''settings_json'' arg of
        Inl e \<Rightarrow> Inl e
      | Inr settings_json \<Rightarrow> Inr (PFloat NaN))"

text \<open>
  The class itself: its name and its namespace, one entry per binding of the class
  body in source order. A function entry records how it is bound (plain instance
  method or \<^verbatim>\<open>@classmethod\<close>) and its parameters after the receiver.
\<close>

datatype binding = InstanceMethod | ClassMethod

datatype member = Attribute py_value | Function binding params

record py_class =
  class_name :: string
  namespace :: "(string \<times> member) list"

definition MobileFormSettings :: py_class where
  "MobileFormSettings =
     \<lparr>class_name = ''MobileFormSettings'',
      namespace =
        [(''INPUT_TYPES'', Function ClassMethod []),
         (''RETURN_TYPES'', Attribute RETURN_TYPES),
         (''FUNCTION'', Attribute FUNCTION),
         (''CATEGORY'', Attribute CATEGORY),
         (''OUTPUT_NODE'', Attribute OUTPUT_NODE),
         (''store'', Function InstanceMethod store_params),
         (''IS_CHANGED'', Function ClassMethod IS_CHANGED_params)]\<rparr>"

text \<open>\<^verbatim>\<open>getattr(cls, name)\<close> on the class namespace.\<close>

definition class_attr :: "py_class \<Rightarrow> string \<Rightarrow> member option" where
  "class_attr c name = map_of (namespace c) name"

subsection \<open>The module-level tables\<close>

text \<open>
  \<^verbatim>\<open>
    NODE_CLASS_MAPPINGS = { "MobileFormSettings": MobileFormSettings }
    NODE_DISPLAY_NAME_MAPPINGS = { "MobileFormSettings": "Mobile Form Settings" }
    WEB_DIRECTORY = "./web"
  \<close>
\<close>

definition NODE_CLASS_MAPPINGS :: "(string \<times> py_class) list" where
  "NODE_CLASS_MAPPINGS = [(''MobileFormSettings'', MobileFormSettings)]"

definition NODE_DISPLAY_NAME_MAPPINGS :: "(string \<times> string) list" where
  "NODE_DISPLAY_NAME_MAPPINGS = [(''MobileFormSettings'', ''Mobile Form Settings'')]"

definition WEB_DIRECTORY :: string where
  "WEB_DIRECTORY = ''./web''"

text \<open>The declared default of a field of the schema:
  \<^verbatim>\<open>INPUT_TYPES()["required"][name][1]["default"]\<close>.\<close>

definition tuple_index :: "py_value \<Rightarrow> nat \<Rightarrow> py_value result" where
  "tuple_index t i =
     (case t of
        PTuple xs \<Rightarrow> (if i < length xs then Inr (xs ! i) else Inl IndexError)
      | _ \<Rightarrow> Inl TypeError)"

definition field_options :: "py_value \<Rightarrow> string \<Rightarrow> string \<Rightarrow> py_value result" where
  "field_options schema section name =
     (case dict_get schema section of
        Inl e \<Rightarrow> Inl e
      | Inr entries \<Rightarrow>
          (case dict_get entries name of
             Inl e \<Rightarrow> Inl e
           | Inr spec \<Rightarrow> tuple_index spec 1))"

definition field_type :: "py_value \<Rightarrow> string \<Rightarrow> string \<Rightarrow> py_value result" where
  "field_type schema section name =
     (case dict_get schema section of
        Inl e \<Rightarrow> Inl e
      | Inr entries \<Rightarrow>
          (case dict_get entries name of
             Inl e \<Rightarrow> Inl e
           | Inr spec \<Rightarrow> tuple_index spec 0))"

definition field_option :: "py_value \<Rightarrow> string \<Rightarrow> string \<Rightarrow> string \<Rightarrow> py_value result" where
  "field_option schema section name opt =
     (case field_options schema section name of
        Inl e \<Rightarrow> Inl e
      | Inr opts \<Rightarrow> dict_get opts opt)"

section \<open>Properties\<close>

subsection \<open>Evaluation lemmas\<close>

lemma bind_param_Some: "bind_param ps name (Some v) = Inr v"
  by (simp add: bind_param_def)

lemma bind_store_default: "bind_param store_params ''settings_json'' None = Inr (PStr ''{}'')"
  by (simp add: bind_param_def store_params_def)

lemma bind_IS_CHANGED_default:
  "bind_param IS_CHANGED_params ''settings_json'' None = Inr (PStr ''{}'')"
  by (simp add: bind_param_def IS_CHANGED_params_def)

lemma store_total: "store self arg = (Inr (PDict []), self)"
proof (cases arg)
  case None
  then show ?thesis by (simp add: store_def bind_store_default)
next
  case (Some v)
  then show ?thesis by (simp add: store_def bind_param_Some)
qed

lemma IS_CHANGED_total: "IS_CHANGED arg = Inr (PFloat NaN)"
proof (cases arg)
  case None
  then show ?thesis by (simp add: IS_CHANGED_def bind_IS_CHANGED_default)
next
  case (Some v)
  then show ?thesis by (simp add: IS_CHANGED_def bind_param_Some)
qed

lemma dict_get_PDict:
  "dict_get (PDict kvs) k = (case map_of kvs k of Some v \<Rightarrow> Inr v | None \<Rightarrow> Inl KeyError)"
  by (simp add: dict_get_def)

lemma tuple_index_PTuple:
  "tuple_index (PTuple xs) i = (if i < length xs then Inr (xs ! i) else Inl IndexError)"
  by (simp add: tuple_index_def)

lemma required_section:
  "dict_get INPUT_TYPES ''required'' =
     Inr (PDict
       [(''settings_json'',
           PTuple
             [PStr ''STRING'',
              PDict
                [(''default'', PStr ''{}''),
                 (''multiline'', PBool True),
                 (''dynamicPrompts'', PBool False)]])])"
  by (simp add: INPUT_TYPES_def dict_get_def)

lemma settings_json_options:
  "field_options INPUT_TYPES ''required'' ''settings_json'' =
     Inr (PDict
       [(''default'', PStr ''{}''),
        (''multiline'', PBool True),
        (''dynamicPrompts'', PBool False)])"
  by (simp add: field_options_def required_section dict_get_PDict tuple_index_PTuple)

lemma settings_json_default:
  "field_option INPUT_TYPES ''required'' ''settings_json'' ''default'' = Inr (PStr ''{}'')"
  by (simp add: field_option_def settings_json_options dict_get_PDict)

subsection \<open>Change detection\<close>

text \<open>
  C1. For every input string \<open>s\<close>, \<open>IS_CHANGED\<close> returns the NaN sentinel, and the
  value does not depend on \<open>s\<close>: two calls on any two strings return the same value,
  and so do the calls on the empty string, on the default \<open>{}\<close> and with the argument
  left out.
\<close>

theorem IS_CHANGED_constant:
  "IS_CHANGED (Some (PStr s)) = Inr (PFloat NaN)
   \<and> IS_CHANGED (Some (PStr s)) = IS_CHANGED (Some (PStr t))
   \<and> IS_CHANGED (Some (PStr [])) = IS_CHANGED (Some (PStr s))
   \<and> IS_CHANGED (Some (PStr ''{}'')) = IS_CHANGED (Some (PStr s))
   \<and> IS_CHANGED None = IS_CHANGED (Some (PStr s))"
  by (simp add: IS_CHANGED_total)

text \<open>
  C6. For every input string \<open>s\<close>, the call returns a float that is not equal to
  itself under \<^verbatim>\<open>==\<close> and is unequal to itself under \<^verbatim>\<open>!=\<close>.
\<close>

theorem IS_CHANGED_self_unequal:
  "\<exists>x. IS_CHANGED (Some (PStr s)) = Inr (PFloat x) \<and> \<not> float_eq x x \<and> float_ne x x"
  by (simp add: IS_CHANGED_total float_ne_def)

subsection \<open>The input schema\<close>

text \<open>
  C2. The schema has a \<open>required\<close> section with exactly one field; its name is
  \<open>settings_json\<close>, its type is \<open>STRING\<close>, its default is \<open>{}\<close>, \<open>multiline\<close> is true
  and \<open>dynamicPrompts\<close> is false.
\<close>

theorem INPUT_TYPES_required:
  "\<exists>req. dict_get INPUT_TYPES ''required'' = Inr req
     \<and> dict_keys req = Inr [''settings_json'']
     \<and> py_len req = Inr 1
     \<and> field_type INPUT_TYPES ''required'' ''settings_json'' = Inr (PStr ''STRING'')
     \<and> field_option INPUT_TYPES ''required'' ''settings_json'' ''default'' = Inr (PStr ''{}'')
     \<and> field_option INPUT_TYPES ''required'' ''settings_json'' ''multiline'' = Inr (PBool True)
     \<and> field_option INPUT_TYPES ''required'' ''settings_json'' ''dynamicPrompts''
         = Inr (PBool False)"
  by (simp add: required_section settings_json_default field_option_def settings_json_options
      field_type_def dict_keys_def py_len_def dict_get_PDict tuple_index_PTuple)

text \<open>
  C7. The schema's \<open>optional\<close> section is present and empty, and the schema has no
  section besides \<open>required\<close> and \<open>optional\<close>.
\<close>

theorem INPUT_TYPES_no_optional:
  "\<exists>opt. dict_get INPUT_TYPES ''optional'' = Inr opt
     \<and> dict_keys opt = Inr []
     \<and> py_len opt = Inr 0
     \<and> dict_keys INPUT_TYPES = Inr [''required'', ''optional'']"
  by (simp add: INPUT_TYPES_def dict_get_def dict_keys_def py_len_def)

subsection \<open>The store action\<close>

text \<open>
  C3. For every input string \<open>s\<close>, \<open>store\<close> returns normally, and what it returns is
  the empty dictionary; so it does when the argument is left out.
\<close>

theorem store_returns_empty:
  "fst (store self (Some (PStr s))) = Inr (PDict [])
   \<and> fst (store self None) = Inr (PDict [])
   \<and> py_len (PDict []) = Inr 0"
  by (simp add: store_total py_len_def)

text \<open>
  C8. For every input string \<open>s\<close> and every state, the state after \<open>store\<close> is the
  state before it, and the result does not depend on \<open>s\<close> or on the state.
\<close>

theorem store_frame:
  "snd (store self (Some (PStr s))) = self
   \<and> snd (store self None) = self
   \<and> fst (store self (Some (PStr s))) = fst (store self' (Some (PStr t)))"
  by (simp add: store_total)

subsection \<open>Defaults\<close>

text \<open>
  C9. The default that \<open>store\<close> and \<open>IS_CHANGED\<close> bind to \<open>settings_json\<close> when the
  caller leaves it out is the default the schema declares for the field
  \<open>settings_json\<close>, and a call without the argument gives what a call with the
  schema's default gives.
\<close>

theorem defaults_agree:
  "bind_param store_params ''settings_json'' None
     = field_option INPUT_TYPES ''required'' ''settings_json'' ''default''
   \<and> bind_param IS_CHANGED_params ''settings_json'' None
     = field_option INPUT_TYPES ''required'' ''settings_json'' ''default''
   \<and> field_option INPUT_TYPES ''required'' ''settings_json'' ''default'' = Inr (PStr ''{}'')
   \<and> store self None = store self (Some (PStr ''{}''))
   \<and> IS_CHANGED None = IS_CHANGED (Some (PStr ''{}''))"
  by (simp add: bind_store_default bind_IS_CHANGED_default settings_json_default
      store_total IS_CHANGED_total)

subsection \<open>Registration\<close>

text \<open>
  C4. \<open>NODE_CLASS_MAPPINGS\<close> has exactly one entry; its key is \<open>MobileFormSettings\<close>
  and its value is the class \<open>MobileFormSettings\<close>.
\<close>

theorem NODE_CLASS_MAPPINGS_single:
  "map fst NODE_CLASS_MAPPINGS = [''MobileFormSettings'']
   \<and> length NODE_CLASS_MAPPINGS = 1
   \<and> map_of NODE_CLASS_MAPPINGS ''MobileFormSettings'' = Some MobileFormSettings
   \<and> class_name MobileFormSettings = ''MobileFormSettings''"
  by (simp add: NODE_CLASS_MAPPINGS_def MobileFormSettings_def)

text \<open>
  C5. \<open>NODE_DISPLAY_NAME_MAPPINGS\<close> has exactly one entry; its key is
  \<open>MobileFormSettings\<close> and its value is \<open>Mobile Form Settings\<close>.
\<close>

theorem NODE_DISPLAY_NAME_MAPPINGS_single:
  "map fst NODE_DISPLAY_NAME_MAPPINGS = [''MobileFormSettings'']
   \<and> length NODE_DISPLAY_NAME_MAPPINGS = 1
   \<and> map_of NODE_DISPLAY_NAME_MAPPINGS ''MobileFormSettings'' = Some ''Mobile Form Settings''"
  by (simp add: NODE_DISPLAY_NAME_MAPPINGS_def)

subsection \<open>The class declaration\<close>

text \<open>
  What the class body declares, read through the namespace: \<open>OUTPUT_NODE\<close> is true,
  \<open>RETURN_TYPES\<close> is the empty tuple, \<open>FUNCTION\<close> is the name \<open>store\<close>, the namespace
  binds that name to an instance method, and that method returns the empty dictionary.
  What a host application does with such a declaration is outside this module.
\<close>

lemma class_declaration:
  "class_attr MobileFormSettings ''OUTPUT_NODE'' = Some (Attribute (PBool True))
   \<and> class_attr MobileFormSettings ''RETURN_TYPES'' = Some (Attribute (PTuple []))
   \<and> py_len RETURN_TYPES = Inr 0
   \<and> (\<exists>name ps. class_attr MobileFormSettings ''FUNCTION'' = Some (Attribute (PStr name))
         \<and> name = ''store''
         \<and> class_attr MobileFormSettings name = Some (Function InstanceMethod ps))
   \<and> fst (store self arg) = Inr (PDict [])"
  by (simp add: class_attr_def MobileFormSettings_def OUTPUT_NODE_def RETURN_TYPES_def
      FUNCTION_def py_len_def store_total)

end
